theory Spec2Isabelle
  imports Main "HOL-Library.Product_Lexorder"
begin

section \<open>Errors\<close>

text \<open>
  The exceptions that \<^verbatim>\<open>alarmclock.py\<close> raises or lets through, each with the message
  it carries. A function that may raise returns \<open>error + 'a\<close>, with \<open>Inl\<close> for the exception.
  A \<^verbatim>\<open>ValueError\<close> also records the exception it was raised from
  (\<^verbatim>\<open>raise ... from last_exc\<close>); the failures of \<^verbatim>\<open>datetime.strptime\<close> are told
  apart by their cause, not by their text.
\<close>

datatype strptime_error =
    Bad_directive
  | Does_not_match
  | Unconverted_data_remains string

datatype error =
    ValueError string "strptime_error option"
  | FileNotFoundError string
  | RuntimeError string
  | OverflowError string

text \<open>\<^verbatim>\<open>str(e)\<close>, the text that \<^verbatim>\<open>print(f"... {e}")\<close> shows.\<close>

fun str :: "error \<Rightarrow> string" where
  "str (ValueError m cause) = m"
| "str (FileNotFoundError m) = m"
| "str (RuntimeError m) = m"
| "str (OverflowError m) = m"

section \<open>Dates, times and instants\<close>

text \<open>
  The values of Python's \<^verbatim>\<open>datetime\<close> module that the program handles: a naive
  \<^verbatim>\<open>datetime\<close> is a calendar date together with a time of day. \<^verbatim>\<open>now.date()\<close> is
  \<open>dt_date now\<close>, and \<^verbatim>\<open>datetime.combine(d, t)\<close> is \<open>combine d t\<close>.
\<close>

record date =
  year :: nat
  month :: nat
  day :: nat

record time =
  hour :: nat
  minute :: nat
  second :: nat
  microsecond :: nat

record datetime =
  dt_date :: date
  dt_time :: time

definition MAXYEAR :: nat where
  "MAXYEAR = 9999"

definition is_leap :: "nat \<Rightarrow> bool" where
  "is_leap y = (y mod 4 = 0 \<and> (y mod 100 \<noteq> 0 \<or> y mod 400 = 0))"

definition days_in_month :: "nat \<Rightarrow> nat \<Rightarrow> nat" where
  "days_in_month y m =
     (if m = 2 then (if is_leap y then 29 else 28)
      else if m = 4 \<or> m = 6 \<or> m = 9 \<or> m = 11 then 30
      else 31)"

definition valid_date :: "date \<Rightarrow> bool" where
  "valid_date d =
     (1 \<le> year d \<and> year d \<le> MAXYEAR \<and> 1 \<le> month d \<and> month d \<le> 12 \<and>
      1 \<le> day d \<and> day d \<le> days_in_month (year d) (month d))"

definition combine :: "date \<Rightarrow> time \<Rightarrow> datetime" where
  "combine d t = \<lparr>dt_date = d, dt_time = t\<rparr>"

text \<open>
  Naive datetimes compare field by field, from the year down to the microsecond.
\<close>

definition dt_tuple :: "datetime \<Rightarrow> nat \<times> nat \<times> nat \<times> nat \<times> nat \<times> nat \<times> nat" where
  "dt_tuple dt =
     (year (dt_date dt), month (dt_date dt), day (dt_date dt),
      hour (dt_time dt), minute (dt_time dt), second (dt_time dt), microsecond (dt_time dt))"

definition datetime_le :: "datetime \<Rightarrow> datetime \<Rightarrow> bool" where
  "datetime_le a b = (dt_tuple a \<le> dt_tuple b)"

definition datetime_less :: "datetime \<Rightarrow> datetime \<Rightarrow> bool" where
  "datetime_less a b = (dt_tuple a < dt_tuple b)"

text \<open>
  \<^verbatim>\<open>dt + timedelta(days=1)\<close>: the day number goes up by one and is carried into the
  month and the year when it passes the end of the month; the time of day is kept. A year
  past \<open>MAXYEAR\<close> raises \<^verbatim>\<open>OverflowError\<close>.
\<close>

definition next_day :: "date \<Rightarrow> date" where
  "next_day d =
     (if day d + 1 \<le> days_in_month (year d) (month d) then d\<lparr>day := day d + 1\<rparr>
      else if month d + 1 > 12 then \<lparr>year = year d + 1, month = 1, day = 1\<rparr>
      else \<lparr>year = year d, month = month d + 1, day = 1\<rparr>)"

definition add_one_day :: "datetime \<Rightarrow> error + datetime" where
  "add_one_day dt =
     (let d = next_day (dt_date dt)
      in if year d \<le> MAXYEAR then Inr (dt\<lparr>dt_date := d\<rparr>)
         else Inl (OverflowError ''date value out of range''))"

text \<open>
  The proleptic Gregorian ordinal of a date (\<^verbatim>\<open>date.toordinal()\<close>): 0001-01-01 is day 1.
\<close>

definition days_before_year :: "nat \<Rightarrow> nat" where
  "days_before_year y = (y - 1) * 365 + (y - 1) div 4 - (y - 1) div 100 + (y - 1) div 400"

definition days_before_month :: "nat \<Rightarrow> nat \<Rightarrow> nat" where
  "days_before_month y m = (\<Sum>k\<leftarrow>[1..<m]. days_in_month y k)"

definition toordinal :: "date \<Rightarrow> nat" where
  "toordinal d = days_before_year (year d) + days_before_month (year d) (month d) + day d"

section \<open>The next occurrence of the target time\<close>

text \<open>
  \<^verbatim>\<open>confirm_target_today(target_time)\<close> reads the clock once; the instant it reads is
  the argument \<open>now\<close> here.
\<close>

definition confirm_target_today :: "time \<Rightarrow> datetime \<Rightarrow> error + datetime" where
  "confirm_target_today target_time now =
     (let candidate = combine (dt_date now) target_time
      in if datetime_le candidate now then add_one_day candidate
         else Inr candidate)"


section \<open>Strings\<close>

text \<open>
  A string is a list of 8-bit characters. Among these the decimal digits are \<open>0\<close> to
  \<open>9\<close>, and the whitespace characters of \<^verbatim>\<open>str.strip\<close> and of the regular
  expression \<^verbatim>\<open>\s\<close> are the codes 9 to 13, 28 to 32, 133 and 160.
\<close>

definition isspace :: "char \<Rightarrow> bool" where
  "isspace c = (let n = (of_char c :: nat)
                in (9 \<le> n \<and> n \<le> 13) \<or> (28 \<le> n \<and> n \<le> 32) \<or> n = 133 \<or> n = 160)"

definition isdigit :: "char \<Rightarrow> bool" where
  "isdigit c = (48 \<le> (of_char c :: nat) \<and> (of_char c :: nat) \<le> 57)"

definition in_range :: "char \<Rightarrow> char \<Rightarrow> char \<Rightarrow> bool" where
  "in_range a b c = ((of_char a :: nat) \<le> of_char c \<and> (of_char c :: nat) \<le> of_char b)"

text \<open>
  Lowering of the letters \<open>A\<close> to \<open>Z\<close>. The matcher compares characters after
  lowering them; the expressions of the program hold only the letters \<open>a\<close>, \<open>m\<close>,
  \<open>p\<close>, digits and the colon, and no other 8-bit character lowers to one of these.
\<close>

definition lower :: "char \<Rightarrow> char" where
  "lower c = (if 65 \<le> (of_char c :: nat) \<and> (of_char c :: nat) \<le> 90
              then char_of ((of_char c :: nat) + 32) else c)"

definition strip :: "string \<Rightarrow> string" where
  "strip s = rev (dropWhile isspace (rev (dropWhile isspace s)))"

definition digit_char :: "nat \<Rightarrow> char" where
  "digit_char n = char_of (48 + n)"

text \<open>\<^verbatim>\<open>int(s)\<close> on a string of decimal digits.\<close>

definition int_of :: "string \<Rightarrow> nat" where
  "int_of s = foldl (\<lambda>n c. 10 * n + ((of_char c :: nat) - 48)) 0 s"

text \<open>The decimal digits of \<open>n\<close>, padded with zeros to the width \<open>w\<close>.\<close>

fun zero_padded :: "nat \<Rightarrow> nat \<Rightarrow> string" where
  "zero_padded 0 n = []"
| "zero_padded (Suc w) n = zero_padded w (n div 10) @ [digit_char (n mod 10)]"

text \<open>\<^verbatim>\<open>str(n)\<close>: the decimal digits of \<open>n\<close> without padding.\<close>

fun decimal :: "nat \<Rightarrow> string" where
  "decimal n = (if n < 10 then [digit_char n] else decimal (n div 10) @ [digit_char (n mod 10)])"

declare decimal.simps [simp del]

section \<open>The time formats of \<^verbatim>\<open>datetime.strptime\<close>\<close>

text \<open>
  \<^verbatim>\<open>strptime\<close> turns the format into a regular expression, matches it at the start of
  the data with a backtracking matcher that ignores case, and rejects data with characters
  left over. The expressions it builds from the formats of the program are made of
  literal characters, character ranges, \<^verbatim>\<open>\d\<close>, \<^verbatim>\<open>\s+\<close>, sequence, ordered choice
  and named groups.
\<close>

datatype re =
    Epsilon
  | Lit char
  | Between char char
  | Digit
  | Spaces
  | Seq re re
  | Alt re re
  | Group char re

type_synonym found = "(char \<times> string) list"

text \<open>The remainders that \<^verbatim>\<open>\s+\<close> can leave, the longest match first.\<close>

fun spaces :: "string \<Rightarrow> string list" where
  "spaces [] = []"
| "spaces (x # xs) = (if isspace x then spaces xs @ [xs] else [])"

text \<open>
  Every way the expression matches a prefix of the string, in the order in which a
  backtracking matcher finds them: the groups captured, and the rest of the string.
\<close>

fun matches :: "re \<Rightarrow> string \<Rightarrow> (found \<times> string) list" where
  "matches Epsilon s = [([], s)]"
| "matches (Lit c) s =
     (case s of [] \<Rightarrow> [] | x # xs \<Rightarrow> if lower x = lower c then [([], xs)] else [])"
| "matches (Between a b) s =
     (case s of [] \<Rightarrow> [] | x # xs \<Rightarrow> if in_range a b x then [([], xs)] else [])"
| "matches Digit s =
     (case s of [] \<Rightarrow> [] | x # xs \<Rightarrow> if isdigit x then [([], xs)] else [])"
| "matches Spaces s = map (\<lambda>r. ([], r)) (spaces s)"
| "matches (Seq a b) s =
     concat (map (\<lambda>(g1, r1). map (\<lambda>(g2, r2). (g1 @ g2, r2)) (matches b r1)) (matches a s))"
| "matches (Alt a b) s = matches a s @ matches b s"
| "matches (Group name a) s =
     map (\<lambda>(g, r). ((name, take (length s - length r) s) # g, r)) (matches a s)"

text \<open>
  The expressions of the directives the program uses:
  \<^verbatim>\<open>%H\<close> is \<^verbatim>\<open>(?P<H>2[0-3]|[0-1]\d|\d)\<close>, \<^verbatim>\<open>%I\<close> is \<^verbatim>\<open>(?P<I>1[0-2]|0[1-9]|[1-9])\<close>,
  \<^verbatim>\<open>%M\<close> is \<^verbatim>\<open>(?P<M>[0-5]\d|\d)\<close> and \<^verbatim>\<open>%p\<close> is \<^verbatim>\<open>(?P<p>am|pm)\<close>.
\<close>

definition re_H :: re where
  "re_H = Group CHR ''H''
            (Alt (Seq (Lit CHR ''2'') (Between CHR ''0'' CHR ''3''))
            (Alt (Seq (Between CHR ''0'' CHR ''1'') Digit) Digit))"

definition re_I :: re where
  "re_I = Group CHR ''I''
            (Alt (Seq (Lit CHR ''1'') (Between CHR ''0'' CHR ''2''))
            (Alt (Seq (Lit CHR ''0'') (Between CHR ''1'' CHR ''9'')) (Between CHR ''1'' CHR ''9'')))"

definition re_M :: re where
  "re_M = Group CHR ''M'' (Alt (Seq (Between CHR ''0'' CHR ''5'') Digit) Digit)"

definition re_p :: re where
  "re_p = Group CHR ''p''
            (Alt (Seq (Lit CHR ''a'') (Lit CHR ''m'')) (Seq (Lit CHR ''p'') (Lit CHR ''m'')))"

fun directive :: "char \<Rightarrow> re option" where
  "directive c =
     (if c = CHR ''H'' then Some re_H
      else if c = CHR ''I'' then Some re_I
      else if c = CHR ''M'' then Some re_M
      else if c = CHR ''p'' then Some re_p
      else None)"

text \<open>
  \<^verbatim>\<open>TimeRE.pattern\<close>: a run of whitespace in the format stands for \<^verbatim>\<open>\s+\<close>, a
  \<^verbatim>\<open>%\<close> with the character after it for the expression of that directive, and any other
  character for itself.
\<close>

function pattern :: "string \<Rightarrow> re option" where
  "pattern [] = Some Epsilon"
| "pattern (c # cs) =
     (if isspace c then
        (case pattern (dropWhile isspace cs) of None \<Rightarrow> None | Some r \<Rightarrow> Some (Seq Spaces r))
      else if c = CHR ''%'' then
        (case cs of
           [] \<Rightarrow> None
         | d # ds \<Rightarrow>
             (case directive d of
                None \<Rightarrow> None
              | Some r1 \<Rightarrow> (case pattern ds of None \<Rightarrow> None | Some r2 \<Rightarrow> Some (Seq r1 r2))))
      else (case pattern cs of None \<Rightarrow> None | Some r \<Rightarrow> Some (Seq (Lit c) r)))"
  by pat_completeness auto
termination
  by (relation "measure length") (auto simp add: length_dropWhile_le less_Suc_eq_le)

text \<open>
  The fields that \<^verbatim>\<open>_strptime\<close> reads from the groups, in the order of the groups:
  a 12-hour value is turned into a 24-hour value with the meridiem that was matched.
\<close>

definition set_field :: "found \<Rightarrow> time \<Rightarrow> char \<times> string \<Rightarrow> time" where
  "set_field found_dict t g =
     (if fst g = CHR ''H'' then t\<lparr>hour := int_of (snd g)\<rparr>
      else if fst g = CHR ''I'' then
        (let h = int_of (snd g);
             ampm = map lower (case map_of found_dict CHR ''p'' of None \<Rightarrow> [] | Some p \<Rightarrow> p)
         in if ampm = [] \<or> ampm = ''am'' then t\<lparr>hour := (if h = 12 then 0 else h)\<rparr>
            else if ampm = ''pm'' then t\<lparr>hour := (if h \<noteq> 12 then h + 12 else h)\<rparr>
            else t\<lparr>hour := h\<rparr>)
      else if fst g = CHR ''M'' then t\<lparr>minute := int_of (snd g)\<rparr>
      else t)"

definition strptime :: "string \<Rightarrow> string \<Rightarrow> strptime_error + datetime" where
  "strptime data_string format =
     (case pattern format of
        None \<Rightarrow> Inl Bad_directive
      | Some format_regex \<Rightarrow>
          (case matches format_regex data_string of
             [] \<Rightarrow> Inl Does_not_match
           | (found_dict, rest) # _ \<Rightarrow>
               if rest \<noteq> [] then Inl (Unconverted_data_remains rest)
               else Inr (combine \<lparr>year = 1900, month = 1, day = 1\<rparr>
                          (foldl (set_field found_dict)
                             \<lparr>hour = 0, minute = 0, second = 0, microsecond = 0\<rparr> found_dict))))"

section \<open>Parsing the target time\<close>

definition parse_formats :: "string list" where
  "parse_formats = [''%I:%M %p'', ''%I:%M%p'', ''%H:%M'', ''%H%M'', ''%I %p'', ''%I%M %p'']"

text \<open>
  The loop of \<^verbatim>\<open>parse_target_time\<close> over the formats that are left: the first format
  that \<^verbatim>\<open>strptime\<close> accepts gives the result, and when none is left the
  \<^verbatim>\<open>ValueError\<close> is raised from the last failure.
\<close>

fun try_formats :: "string \<Rightarrow> string list \<Rightarrow> strptime_error option \<Rightarrow> error + time" where
  "try_formats timestr [] last_exc =
     Inl (ValueError (''Unrecognized time format: '' @ [CHR 0x27] @ timestr @ [CHR 0x27]) last_exc)"
| "try_formats timestr (fmt # fmts) last_exc =
     (case strptime timestr fmt of
        Inr dt \<Rightarrow> Inr (dt_time dt)
      | Inl e \<Rightarrow> try_formats timestr fmts (Some e))"

definition parse_target_time :: "string \<Rightarrow> error + time" where
  "parse_target_time timestr = try_formats (strip timestr) parse_formats None"

section \<open>Printing the alarm time\<close>

text \<open>
  \<^verbatim>\<open>alarm_dt.strftime("%Y-%m-%d %H:%M:%S")\<close> as the C library of Linux prints it: the
  year in decimal without padding (999 is printed with three digits), the other fields
  with two digits each, padded with zeros.
\<close>

definition strftime :: "datetime \<Rightarrow> string" where
  "strftime dt =
     decimal (year (dt_date dt)) @ ''-'' @ zero_padded 2 (month (dt_date dt)) @ ''-''
       @ zero_padded 2 (day (dt_date dt)) @ '' ''
       @ zero_padded 2 (hour (dt_time dt)) @ '':'' @ zero_padded 2 (minute (dt_time dt)) @ '':''
       @ zero_padded 2 (second (dt_time dt))"

section \<open>Playing the sound\<close>

text \<open>
  What \<^verbatim>\<open>play_sound\<close> finds on the machine it runs on: the home directory expansion,
  the files that exist, \<^verbatim>\<open>sys.platform\<close>, whether importing and calling
  \<^verbatim>\<open>playsound\<close> on a file returns without an exception, and whether
  \<^verbatim>\<open>subprocess.run(cmd, check=True)\<close> does.
\<close>

record host =
  expanduser :: "string \<Rightarrow> string"
  isfile :: "string \<Rightarrow> bool"
  platform :: string
  playsound_works :: "string \<Rightarrow> bool"
  run_works :: "string list \<Rightarrow> bool"

datatype mechanism = Playsound string | Run "string list"

definition startswith :: "string \<Rightarrow> string \<Rightarrow> bool" where
  "startswith s p = (take (length p) s = p)"

definition ps_cmd :: "string \<Rightarrow> string" where
  "ps_cmd soundfile =
     ''[console]::beep(750,300);'' @ ''(New-Object Media.SoundPlayer '' @ [CHR 0x27] @ soundfile
       @ [CHR 0x27] @ '').PlaySync();''"

text \<open>
  The loop over the Linux players: each command is run in turn, the first that returns
  without an exception ends the loop. The mechanisms tried so far are carried along.
\<close>

fun run_each :: "host \<Rightarrow> string list list \<Rightarrow> mechanism list \<Rightarrow> mechanism list \<times> bool" where
  "run_each h [] tried = (tried, False)"
| "run_each h (cmd # cmds) tried =
     (if run_works h cmd then (tried @ [Run cmd], True)
      else run_each h cmds (tried @ [Run cmd]))"

text \<open>
  \<^verbatim>\<open>play_sound(soundfile)\<close> returns the mechanisms it tried, in order, and either
  nothing (the sound was played) or the exception it raised.
\<close>

definition play_sound :: "host \<Rightarrow> string \<Rightarrow> mechanism list \<times> (error + unit)" where
  "play_sound h soundfile0 =
     (let soundfile = expanduser h soundfile0 in
      if \<not> isfile h soundfile then
        ([], Inl (FileNotFoundError (''Sound file not found: '' @ soundfile)))
      else if playsound_works h soundfile then ([Playsound soundfile], Inr ())
      else
        let t1 = [Playsound soundfile];
            (t2, ok2) = (if platform h = ''darwin''
                         then (t1 @ [Run [''afplay'', soundfile]], run_works h [''afplay'', soundfile])
                         else (t1, False))
        in if ok2 then (t2, Inr ())
        else
          let (t3, ok3) = (if startswith (platform h) ''linux''
                           then run_each h [[''paplay'', soundfile], [''aplay'', soundfile],
                                            [''ffplay'', ''-nodisp'', ''-autoexit'', soundfile]] t2
                           else (t2, False))
          in if ok3 then (t3, Inr ())
          else
            let (t4, ok4) = (if startswith (platform h) ''win''
                             then (t3 @ [Run [''powershell'', ''-Command'', ps_cmd soundfile]],
                                   run_works h [''powershell'', ''-Command'', ps_cmd soundfile])
                             else (t3, False))
            in if ok4 then (t4, Inr ())
            else (t4, Inl (RuntimeError
  ''No available method to play sound on this system. Install 'playsound' or ensure a command-line player is available.'')))"

text \<open>
  The fallback order as a list, to compare \<open>play_sound\<close> with: the \<^verbatim>\<open>playsound\<close>
  module first, then the command-line players of the platform.
\<close>

definition mechanisms :: "string \<Rightarrow> string \<Rightarrow> mechanism list" where
  "mechanisms pf soundfile =
     [Playsound soundfile]
     @ (if pf = ''darwin'' then [Run [''afplay'', soundfile]] else [])
     @ (if startswith pf ''linux''
        then [Run [''paplay'', soundfile], Run [''aplay'', soundfile],
              Run [''ffplay'', ''-nodisp'', ''-autoexit'', soundfile]]
        else [])
     @ (if startswith pf ''win''
        then [Run [''powershell'', ''-Command'', ps_cmd soundfile]] else [])"

fun succeeds :: "host \<Rightarrow> mechanism \<Rightarrow> bool" where
  "succeeds h (Playsound f) = playsound_works h f"
| "succeeds h (Run cmd) = run_works h cmd"

section \<open>The program\<close>

text \<open>
  A run of \<^verbatim>\<open>main\<close> is determined by the command-line arguments after the program
  name, the instants that the successive calls of \<^verbatim>\<open>datetime.now()\<close> return (call 0 is
  the one of \<^verbatim>\<open>confirm_target_today\<close>, call \<open>n + 1\<close> the one of iteration \<open>n\<close> of the
  wait loop), the point of the \<^verbatim>\<open>try\<close> block at which the user's interrupt raises
  \<^verbatim>\<open>KeyboardInterrupt\<close>, if any, and the machine.
\<close>

datatype interrupt =
    Never
  | At_poll nat
  | At_sleep nat
  | At_play

record world =
  argv :: "string list"
  clock :: "nat \<Rightarrow> datetime"
  interrupt :: interrupt
  machine :: host

text \<open>
  How a run ends: by \<^verbatim>\<open>sys.exit(n)\<close> (returning from \<^verbatim>\<open>main\<close> is exit code 0) or
  by an exception that nothing catches.
\<close>

datatype status = Exit nat | Uncaught error

text \<open>
  What a run that ends has done: the lines it printed, how it ended, the number of times
  the wait loop read the clock, and the arguments of its calls of \<^verbatim>\<open>play_sound\<close>.
\<close>

record outcome =
  stdout :: "string list"
  status :: status
  polls :: nat
  calls :: "string list"

definition DEFAULT_TIME :: string where
  "DEFAULT_TIME = ''7:00 AM''"

definition DEFAULT_SOUND :: string where
  "DEFAULT_SOUND = ''alarm.aif''"

definition read_args :: "string list \<Rightarrow> string \<times> string" where
  "read_args args =
     (if length args = 0 then (DEFAULT_TIME, DEFAULT_SOUND)
      else if length args = 1 then (args ! 0, DEFAULT_SOUND)
      else (args ! 0, args ! 1))"

text \<open>The handler of \<^verbatim>\<open>KeyboardInterrupt\<close>.\<close>

definition cancelled :: "string list \<Rightarrow> nat \<Rightarrow> string list \<Rightarrow> outcome" where
  "cancelled out n cs =
     \<lparr>stdout = out @ [CHR 0x0A # ''Alarm cancelled by user.''], status = Exit 0,
      polls = n, calls = cs\<rparr>"

text \<open>The branch of the loop taken once \<^verbatim>\<open>now >= alarm_dt\<close>.\<close>

definition sound_alarm :: "world \<Rightarrow> string \<Rightarrow> string list \<Rightarrow> nat \<Rightarrow> outcome" where
  "sound_alarm w soundfile out n =
     (let out1 = out @ [''Alarm time reached. Playing sound...''] in
      if interrupt w = At_play then cancelled out1 n [soundfile]
      else
        (case snd (play_sound (machine w) soundfile) of
           Inl e \<Rightarrow>
             \<lparr>stdout = out1 @ [''Failed to play sound: '' @ str e], status = Exit 3,
              polls = n, calls = [soundfile]\<rparr>
         | Inr u \<Rightarrow>
             \<lparr>stdout = out1 @ [''Done.''], status = Exit 0, polls = n, calls = [soundfile]\<rparr>))"

text \<open>
  The \<^verbatim>\<open>while True\<close> loop, from iteration \<open>n\<close> on. It has no bound: when the clock never
  reaches the alarm and no interrupt comes, the loop does not end and there is no outcome.
\<close>

partial_function (option) wait_loop ::
  "world \<Rightarrow> datetime \<Rightarrow> string \<Rightarrow> string list \<Rightarrow> nat \<Rightarrow> outcome option" where
  "wait_loop w alarm_dt soundfile out n =
     (if interrupt w = At_poll n then Some (cancelled out n [])
      else if datetime_le alarm_dt (clock w (Suc n)) then Some (sound_alarm w soundfile out (Suc n))
      else if interrupt w = At_sleep n then Some (cancelled out (Suc n) [])
      else wait_loop w alarm_dt soundfile out (Suc n))"

definition main :: "world \<Rightarrow> outcome option" where
  "main w =
     (let (target_str, soundfile) = read_args (argv w) in
      case parse_target_time target_str of
        Inl (ValueError m cause) \<Rightarrow>
          Some \<lparr>stdout = [''Error: '' @ m,
                           ''Accepted formats: 7:00 AM, 07:00, 10:00 PM, 22:00, etc.''],
                status = Exit 2, polls = 0, calls = []\<rparr>
      | Inl e \<Rightarrow> Some \<lparr>stdout = [], status = Uncaught e, polls = 0, calls = []\<rparr>
      | Inr target_time \<Rightarrow>
          (case confirm_target_today target_time (clock w 0) of
             Inl e \<Rightarrow> Some \<lparr>stdout = [], status = Uncaught e, polls = 0, calls = []\<rparr>
           | Inr alarm_dt \<Rightarrow>
               wait_loop w alarm_dt soundfile
                 [''Alarm set for: '' @ strftime alarm_dt, ''Sound file: '' @ soundfile] 0))"

section \<open>The accepted patterns in the words of the specification\<close>









section \<open>Calendar arithmetic\<close>

lemma mod_100_4: "(n::nat) mod 100 = 0 \<Longrightarrow> n mod 4 = 0"
proof -
  assume "n mod 100 = 0"
  then have "100 dvd n" by (simp add: dvd_eq_mod_eq_0)
  moreover have "(4::nat) dvd 100" by simp
  ultimately have "4 dvd n" by (rule dvd_trans[rotated])
  then show ?thesis by (simp add: dvd_eq_mod_eq_0)
qed

lemma mod_400_100: "(n::nat) mod 400 = 0 \<Longrightarrow> n mod 100 = 0"
proof -
  assume "n mod 400 = 0"
  then have "400 dvd n" by (simp add: dvd_eq_mod_eq_0)
  moreover have "(100::nat) dvd 400" by simp
  ultimately have "100 dvd n" by (rule dvd_trans[rotated])
  then show ?thesis by (simp add: dvd_eq_mod_eq_0)
qed

lemma days_before_year_Suc:
  assumes "1 \<le> y"
  shows "days_before_year (Suc y) = days_before_year y + (if is_leap y then 366 else 365)"
proof -
  from assms obtain n where y: "y = Suc n" by (cases y) auto
  define A B C where "A = n div 4" and "B = n div 100" and "C = n div 400"
  have le: "B \<le> A" unfolding A_def B_def by (rule div_le_mono2) simp_all
  have before: "days_before_year y = n * 365 + A - B + C"
    by (simp add: y days_before_year_def A_def B_def C_def)
  have after: "days_before_year (Suc y) = Suc n * 365 + Suc n div 4 - Suc n div 100 + Suc n div 400"
    by (simp add: y days_before_year_def)
  consider (c1) "Suc n mod 4 \<noteq> 0"
    | (c2) "Suc n mod 4 = 0" "Suc n mod 100 \<noteq> 0"
    | (c3) "Suc n mod 100 = 0" "Suc n mod 400 \<noteq> 0"
    | (c4) "Suc n mod 400 = 0"
    by fastforce
  then show ?thesis
  proof cases
    case c1
    have m1: "Suc n mod 100 \<noteq> 0"
    proof
      assume "Suc n mod 100 = 0"
      from mod_100_4[OF this] c1 show False by simp
    qed
    have m2: "Suc n mod 400 \<noteq> 0"
    proof
      assume "Suc n mod 400 = 0"
      from mod_400_100[OF this] m1 show False by simp
    qed
    note m = m1 m2
    have "Suc n div 4 = A" "Suc n div 100 = B" "Suc n div 400 = C"
      using c1 m by (simp_all add: div_Suc A_def B_def C_def)
    moreover have "\<not> is_leap y" using c1 by (simp add: is_leap_def y)
    ultimately show ?thesis using le by (simp add: before after)
  next
    case c2
    have m: "Suc n mod 400 \<noteq> 0"
    proof
      assume "Suc n mod 400 = 0"
      from mod_400_100[OF this] c2(2) show False by simp
    qed
    have "Suc n div 4 = Suc A" "Suc n div 100 = B" "Suc n div 400 = C"
      using c2 m by (simp_all add: div_Suc A_def B_def C_def)
    moreover have "is_leap y" using c2 by (simp add: is_leap_def y)
    ultimately show ?thesis using le by (simp add: before after)
  next
    case c3
    then have m: "Suc n mod 4 = 0" using mod_100_4[of "Suc n"] by simp
    have "Suc n div 4 = Suc A" "Suc n div 100 = Suc B" "Suc n div 400 = C"
      using c3 m by (simp_all add: div_Suc A_def B_def C_def)
    moreover have "\<not> is_leap y" using c3 by (simp add: is_leap_def y)
    ultimately show ?thesis using le by (simp add: before after)
  next
    case c4
    then have m1: "Suc n mod 100 = 0" by (rule mod_400_100)
    then have m2: "Suc n mod 4 = 0" by (rule mod_100_4)
    note m = m1 m2
    have "Suc n div 4 = Suc A" "Suc n div 100 = Suc B" "Suc n div 400 = Suc C"
      using c4 m by (simp_all add: div_Suc A_def B_def C_def)
    moreover have "is_leap y" using c4 m by (simp add: is_leap_def y)
    ultimately show ?thesis using le by (simp add: before after)
  qed
qed


lemma days_before_month_Suc:
  "1 \<le> m \<Longrightarrow> days_before_month y (Suc m) = days_before_month y m + days_in_month y m"
  by (simp add: days_before_month_def)

lemma days_before_month_1: "days_before_month y (Suc 0) = 0"
  by (simp add: days_before_month_def)

lemma days_before_month_12:
  "days_before_month y 12 + 31 = (if is_leap y then 366 else 365)"
  by (simp add: days_before_month_def upt_rec days_in_month_def)

text \<open>The day after a valid date is the date with the next ordinal.\<close>

lemma toordinal_next_day:
  assumes "valid_date d"
  shows "toordinal (next_day d) = toordinal d + 1"
proof -
  let ?y = "year d" and ?m = "month d"
  from assms have b: "1 \<le> ?y" "1 \<le> ?m" "?m \<le> 12" "day d \<le> days_in_month ?y ?m"
    by (simp_all add: valid_date_def)
  consider (same) "day d + 1 \<le> days_in_month ?y ?m"
    | (month) "day d = days_in_month ?y ?m" "?m < 12"
    | (year) "day d = days_in_month ?y ?m" "?m = 12"
    using b by linarith
  then show ?thesis
  proof cases
    case same
    then show ?thesis by (simp add: toordinal_def next_day_def)
  next
    case month
    then have "next_day d = \<lparr>year = ?y, month = Suc ?m, day = 1\<rparr>"
      by (simp add: next_day_def)
    then show ?thesis
      using month b days_before_month_Suc[of ?m ?y] by (simp add: toordinal_def)
  next
    case year
    then have d31: "day d = 31" by (simp add: days_in_month_def)
    from year have nd: "next_day d = \<lparr>year = Suc ?y, month = Suc 0, day = 1\<rparr>"
      by (simp add: next_day_def)
    have l: "toordinal (next_day d) = days_before_year (Suc ?y) + 1"
      unfolding nd toordinal_def by (simp add: days_before_month_1)
    have r: "toordinal d = days_before_year ?y + (days_before_month ?y 12 + 31)"
      unfolding toordinal_def using year(2) d31 by simp
    show ?thesis
      unfolding l r days_before_month_12 using days_before_year_Suc[OF b(1)] by simp
  qed
qed

lemma valid_next_day:
  assumes "valid_date d" "year (next_day d) \<le> MAXYEAR"
  shows "valid_date (next_day d)"
  using assms
  by (auto simp add: next_day_def valid_date_def days_in_month_def split: if_splits)

lemma year_next_day:
  assumes "valid_date d" "d \<noteq> \<lparr>year = 9999, month = 12, day = 31\<rparr>"
  shows "year (next_day d) \<le> MAXYEAR"
  using assms
  by (cases d) (auto simp add: next_day_def valid_date_def days_in_month_def MAXYEAR_def split: if_splits)

lemma next_day_later:
  "(year d, month d, day d) < (year (next_day d), month (next_day d), day (next_day d))"
  by (simp add: next_day_def)

lemma add_one_day_later:
  assumes "add_one_day dt = Inr r"
  shows "datetime_less dt r"
  using assms next_day_later[of "dt_date dt"]
  by (auto simp add: add_one_day_def Let_def datetime_less_def dt_tuple_def split: if_splits)

lemma datetime_not_le: "(\<not> datetime_le a b) = datetime_less b a"
  by (simp add: datetime_le_def datetime_less_def not_le)

lemma datetime_le_less_trans: "datetime_le a b \<Longrightarrow> datetime_less b c \<Longrightarrow> datetime_less a c"
  unfolding datetime_le_def datetime_less_def by (rule le_less_trans)

section \<open>Properties of the next occurrence\<close>

lemma confirm_target_today_later:
  assumes "confirm_target_today target_time now = Inr r"
  shows "datetime_less now r"
proof (cases "datetime_le (combine (dt_date now) target_time) now")
  case True
  with assms have "add_one_day (combine (dt_date now) target_time) = Inr r"
    by (simp add: confirm_target_today_def)
  then have "datetime_less (combine (dt_date now) target_time) r" by (rule add_one_day_later)
  moreover have "(year (dt_date now), month (dt_date now), day (dt_date now))
      < (year (dt_date r), month (dt_date r), day (dt_date r))"
    using \<open>add_one_day (combine (dt_date now) target_time) = Inr r\<close> next_day_later[of "dt_date now"]
    by (auto simp add: add_one_day_def Let_def combine_def split: if_splits)
  then have "datetime_less now r"
    by (auto simp add: datetime_less_def dt_tuple_def)
  ultimately show ?thesis by simp
next
  case False
  with assms show ?thesis
    by (simp add: confirm_target_today_def datetime_not_le)
qed

lemma confirm_target_today_returns:
  assumes "valid_date (dt_date now)"
    and "dt_date now \<noteq> \<lparr>year = 9999, month = 12, day = 31\<rparr>
         \<or> datetime_less now (combine (dt_date now) target_time)"
  shows "\<exists>r. confirm_target_today target_time now = Inr r"
proof (cases "datetime_le (combine (dt_date now) target_time) now")
  case True
  then have "\<not> datetime_less now (combine (dt_date now) target_time)"
    by (simp add: datetime_not_le[symmetric])
  with assms(2) have "dt_date now \<noteq> \<lparr>year = 9999, month = 12, day = 31\<rparr>" by simp
  from year_next_day[OF assms(1) this] True show ?thesis
    by (simp add: confirm_target_today_def add_one_day_def combine_def)
next
  case False
  then show ?thesis by (simp add: confirm_target_today_def)
qed

text \<open>
  On the last date of the calendar a target that is not later than \<open>now\<close> cannot be moved
  to the next day: the addition overflows.
\<close>

lemma confirm_target_today_overflow:
  assumes "dt_date now = \<lparr>year = 9999, month = 12, day = 31\<rparr>"
    and "datetime_le (combine (dt_date now) target_time) now"
  shows "confirm_target_today target_time now = Inl (OverflowError ''date value out of range'')"
  using assms
  by (simp add: confirm_target_today_def add_one_day_def combine_def next_day_def
      days_in_month_def MAXYEAR_def)

text \<open>
  C1 (as amended). For every target time and every instant \<open>now\<close> with a valid date
  that is not the last date of the calendar, 9999-12-31 (or whose same-day combination with
  the target is still ahead of \<open>now\<close>), \<open>confirm_target_today\<close> returns an instant, and
  that instant is strictly greater than \<open>now\<close>.
\<close>

theorem confirm_target_today_strictly_future:
  assumes "valid_date (dt_date now)"
    and "dt_date now \<noteq> \<lparr>year = 9999, month = 12, day = 31\<rparr>
         \<or> datetime_less now (combine (dt_date now) target_time)"
  shows "\<exists>r. confirm_target_today target_time now = Inr r \<and> datetime_less now r"
  using confirm_target_today_returns[OF assms] confirm_target_today_later by blast

text \<open>
  Witness: now = 2024-01-01 08:00:00, target 07:00; the alarm is 2024-01-02 07:00:00.
\<close>

theorem confirm_target_today_strictly_future_witness:
  "\<exists>r. confirm_target_today \<lparr>hour = 7, minute = 0, second = 0, microsecond = 0\<rparr>
        \<lparr>dt_date = \<lparr>year = 2024, month = 1, day = 1\<rparr>,
         dt_time = \<lparr>hour = 8, minute = 0, second = 0, microsecond = 0\<rparr>\<rparr> = Inr r
      \<and> datetime_less
        \<lparr>dt_date = \<lparr>year = 2024, month = 1, day = 1\<rparr>,
         dt_time = \<lparr>hour = 8, minute = 0, second = 0, microsecond = 0\<rparr>\<rparr> r"
proof -
  have h1: "valid_date (dt_date \<lparr>dt_date = \<lparr>year = 2024, month = 1, day = 1\<rparr>,
         dt_time = \<lparr>hour = 8, minute = 0, second = 0, microsecond = 0\<rparr>\<rparr>)"
    by (simp add: valid_date_def MAXYEAR_def days_in_month_def)
  show ?thesis
    by (rule confirm_target_today_strictly_future[OF h1]) simp
qed

text \<open>
  On 9999-12-31 at 08:00:00 with target 07:00 the same-day combination has passed, the day
  cannot be advanced, and no instant is returned: the claim as stated for every instant fails.
\<close>

theorem confirm_target_today_last_day_counterexample:
  "confirm_target_today \<lparr>hour = 7, minute = 0, second = 0, microsecond = 0\<rparr>
        \<lparr>dt_date = \<lparr>year = 9999, month = 12, day = 31\<rparr>,
         dt_time = \<lparr>hour = 8, minute = 0, second = 0, microsecond = 0\<rparr>\<rparr>
     = Inl (OverflowError ''date value out of range'')"
  by (simp add: confirm_target_today_def combine_def datetime_le_def dt_tuple_def
      add_one_day_def next_day_def days_in_month_def MAXYEAR_def)

text \<open>
  C2 (as amended). For every target time and every instant \<open>now\<close> with a valid date:
  if the combination of \<open>now\<close>'s date with the target is strictly greater than \<open>now\<close>,
  that combination is returned unchanged; if it is less than or equal to \<open>now\<close> and the date
  is not 9999-12-31, the result is the target time on the valid date whose ordinal is exactly
  one more than that of \<open>now\<close>'s date.
\<close>

theorem confirm_target_today_today_or_tomorrow:
  assumes "valid_date (dt_date now)"
  shows "(datetime_less now (combine (dt_date now) target_time) \<longrightarrow>
            confirm_target_today target_time now = Inr (combine (dt_date now) target_time))
       \<and> (datetime_le (combine (dt_date now) target_time) now
            \<and> dt_date now \<noteq> \<lparr>year = 9999, month = 12, day = 31\<rparr> \<longrightarrow>
            (\<exists>d. confirm_target_today target_time now = Inr (combine d target_time)
                \<and> valid_date d \<and> toordinal d = toordinal (dt_date now) + 1))"
proof (intro conjI impI)
  assume "datetime_less now (combine (dt_date now) target_time)"
  then show "confirm_target_today target_time now = Inr (combine (dt_date now) target_time)"
    by (simp add: confirm_target_today_def datetime_not_le[symmetric])
next
  assume a: "datetime_le (combine (dt_date now) target_time) now
            \<and> dt_date now \<noteq> \<lparr>year = 9999, month = 12, day = 31\<rparr>"
  then have y: "year (next_day (dt_date now)) \<le> MAXYEAR"
    using year_next_day[OF assms] by simp
  have "confirm_target_today target_time now = Inr (combine (next_day (dt_date now)) target_time)"
    using a y by (simp add: confirm_target_today_def add_one_day_def combine_def)
  moreover have "valid_date (next_day (dt_date now))"
    using assms y by (rule valid_next_day)
  moreover have "toordinal (next_day (dt_date now)) = toordinal (dt_date now) + 1"
    using assms by (rule toordinal_next_day)
  ultimately show "\<exists>d. confirm_target_today target_time now = Inr (combine d target_time)
                \<and> valid_date d \<and> toordinal d = toordinal (dt_date now) + 1"
    by blast
qed

text \<open>
  Witness: now = 2024-02-28 08:00:00 and target 07:00 give 2024-02-29 07:00:00, the day
  with the next ordinal.
\<close>

theorem confirm_target_today_today_or_tomorrow_witness:
  "confirm_target_today \<lparr>hour = 7, minute = 0, second = 0, microsecond = 0\<rparr>
        \<lparr>dt_date = \<lparr>year = 2024, month = 2, day = 28\<rparr>,
         dt_time = \<lparr>hour = 8, minute = 0, second = 0, microsecond = 0\<rparr>\<rparr>
     = Inr \<lparr>dt_date = \<lparr>year = 2024, month = 2, day = 29\<rparr>,
         dt_time = \<lparr>hour = 7, minute = 0, second = 0, microsecond = 0\<rparr>\<rparr>
   \<and> toordinal \<lparr>year = 2024, month = 2, day = 29\<rparr>
       = toordinal \<lparr>year = 2024, month = 2, day = 28\<rparr> + 1"
proof -
  let ?now = "\<lparr>dt_date = \<lparr>year = 2024, month = 2, day = 28\<rparr>,
         dt_time = \<lparr>hour = 8, minute = 0, second = 0, microsecond = 0\<rparr>\<rparr>"
  let ?t = "\<lparr>hour = 7, minute = 0, second = 0, microsecond = 0\<rparr>"
  have h: "valid_date (dt_date ?now)"
    by (simp add: valid_date_def MAXYEAR_def days_in_month_def)
  have le: "datetime_le (combine (dt_date ?now) ?t) ?now
            \<and> dt_date ?now \<noteq> \<lparr>year = 9999, month = 12, day = 31\<rparr>"
    by (simp add: datetime_le_def dt_tuple_def combine_def)
  from confirm_target_today_today_or_tomorrow[OF h, of ?t] le
  obtain d where d: "confirm_target_today ?t ?now = Inr (combine d ?t)"
      "toordinal d = toordinal (dt_date ?now) + 1"
    by blast
  have "confirm_target_today ?t ?now = Inr (combine \<lparr>year = 2024, month = 2, day = 29\<rparr> ?t)"
    by (simp add: confirm_target_today_def combine_def datetime_le_def dt_tuple_def
      add_one_day_def next_day_def days_in_month_def MAXYEAR_def is_leap_def)
  with d have "d = \<lparr>year = 2024, month = 2, day = 29\<rparr>" by (simp add: combine_def)
  with d show ?thesis by (simp add: combine_def)
qed

text \<open>
  On 9999-12-31 at 07:00:00 with target 07:00 the combination equals \<open>now\<close>, and adding
  the day raises instead of returning the combination plus one day.
\<close>

theorem confirm_target_today_tomorrow_counterexample:
  "confirm_target_today \<lparr>hour = 7, minute = 0, second = 0, microsecond = 0\<rparr>
        \<lparr>dt_date = \<lparr>year = 9999, month = 12, day = 31\<rparr>,
         dt_time = \<lparr>hour = 7, minute = 0, second = 0, microsecond = 0\<rparr>\<rparr>
     = Inl (OverflowError ''date value out of range'')"
  by (simp add: confirm_target_today_def combine_def datetime_le_def dt_tuple_def
      add_one_day_def next_day_def days_in_month_def MAXYEAR_def)


section \<open>Evaluating the matcher\<close>

lemma of_char_digit_char: "n < 10 \<Longrightarrow> (of_char (digit_char n) :: nat) = 48 + n"
  by (simp add: digit_char_def)

lemma isdigit_digit_char: "n < 10 \<Longrightarrow> isdigit (digit_char n)"
  by (simp add: isdigit_def of_char_digit_char)

lemma isspace_digit_char: "n < 10 \<Longrightarrow> \<not> isspace (digit_char n)"
  by (simp add: isspace_def of_char_digit_char)

lemma lower_digit_char: "n < 10 \<Longrightarrow> lower (digit_char n) = digit_char n"
  by (simp add: lower_def of_char_digit_char)

lemma in_range_digit_char:
  "n < 10 \<Longrightarrow> in_range a b (digit_char n) = ((of_char a :: nat) \<le> 48 + n \<and> 48 + n \<le> (of_char b :: nat))"
  by (simp add: in_range_def of_char_digit_char)

lemma digit_char_eq: "n < 10 \<Longrightarrow> (digit_char n = c) = ((of_char c :: nat) = 48 + n)"
proof
  assume "n < 10" "digit_char n = c"
  then show "(of_char c :: nat) = 48 + n" using of_char_digit_char by auto
next
  assume n: "n < 10" and "(of_char c :: nat) = 48 + n"
  then have "char_of (of_char c :: nat) = char_of (48 + n)" by simp
  then show "digit_char n = c" by (simp add: digit_char_def)
qed

lemma lower_literals:
  "lower CHR ''A'' = CHR ''a''" "lower CHR ''M'' = CHR ''m''" "lower CHR ''P'' = CHR ''p''"
  "lower CHR ''a'' = CHR ''a''" "lower CHR ''m'' = CHR ''m''" "lower CHR ''p'' = CHR ''p''"
  "lower CHR '':'' = CHR '':''" "lower CHR '' '' = CHR '' ''"
  "lower CHR ''0'' = CHR ''0''" "lower CHR ''1'' = CHR ''1''" "lower CHR ''2'' = CHR ''2''"
  "lower CHR ''3'' = CHR ''3''" "lower CHR ''4'' = CHR ''4''" "lower CHR ''5'' = CHR ''5''"
  "lower CHR ''6'' = CHR ''6''" "lower CHR ''7'' = CHR ''7''" "lower CHR ''8'' = CHR ''8''"
  "lower CHR ''9'' = CHR ''9''"
  by code_simp+

lemmas char_evals = isdigit_digit_char isspace_digit_char lower_digit_char in_range_digit_char
  digit_char_eq lower_literals of_char_digit_char

lemmas parse_unfold = parse_target_time_def parse_formats_def strip_def strptime_def set_field_def
  int_of_def combine_def isdigit_def isspace_def in_range_def re_H_def re_I_def re_M_def re_p_def


lemma zero_padded_2: "zero_padded 2 n = [digit_char (n div 10 mod 10), digit_char (n mod 10)]"
  by (simp add: numeral_2_eq_2)

lemma decimal_1: "n < 10 \<Longrightarrow> decimal n = [digit_char n]"
  by (simp add: decimal.simps)

lemma decimal_2: "10 \<le> n \<Longrightarrow> n < 100 \<Longrightarrow> decimal n = [digit_char (n div 10), digit_char (n mod 10)]"
  by (subst decimal.simps) (simp add: decimal_1)

lemma div_mod_10: "10 * (m div 10) + m mod 10 = (m::nat)"
  by simp

lemma hour_1digit_am:
  assumes "1 \<le> h" "h \<le> 9" "a < 6" "b < 10"
  shows "parse_target_time ([digit_char h] @ '':'' @ [digit_char a, digit_char b] @ '' AM'')
     = Inr \<lparr>hour = h, minute = 10 * a + b, second = 0, microsecond = 0\<rparr>"
  using assms by (simp add: char_evals parse_unfold)

lemma hour_1digit_pm:
  assumes "1 \<le> h" "h \<le> 9" "a < 6" "b < 10"
  shows "parse_target_time ([digit_char h] @ '':'' @ [digit_char a, digit_char b] @ '' PM'')
     = Inr \<lparr>hour = h + 12, minute = 10 * a + b, second = 0, microsecond = 0\<rparr>"
  using assms by (simp add: char_evals parse_unfold)

lemma hour_0digit_am:
  assumes "1 \<le> h" "h \<le> 9" "a < 6" "b < 10"
  shows "parse_target_time ([digit_char 0, digit_char h] @ '':'' @ [digit_char a, digit_char b] @ '' AM'')
     = Inr \<lparr>hour = h, minute = 10 * a + b, second = 0, microsecond = 0\<rparr>"
  using assms by (simp add: char_evals parse_unfold)

lemma hour_0digit_pm:
  assumes "1 \<le> h" "h \<le> 9" "a < 6" "b < 10"
  shows "parse_target_time ([digit_char 0, digit_char h] @ '':'' @ [digit_char a, digit_char b] @ '' PM'')
     = Inr \<lparr>hour = h + 12, minute = 10 * a + b, second = 0, microsecond = 0\<rparr>"
  using assms by (simp add: char_evals parse_unfold)

lemma hour_2digit_am:
  assumes "c \<le> 2" "a < 6" "b < 10"
  shows "parse_target_time ([digit_char 1, digit_char c] @ '':'' @ [digit_char a, digit_char b] @ '' AM'')
     = Inr \<lparr>hour = (if c = 2 then 0 else 10 + c), minute = 10 * a + b, second = 0, microsecond = 0\<rparr>"
  using assms by (simp add: char_evals parse_unfold)

lemma hour_2digit_pm:
  assumes "c \<le> 2" "a < 6" "b < 10"
  shows "parse_target_time ([digit_char 1, digit_char c] @ '':'' @ [digit_char a, digit_char b] @ '' PM'')
     = Inr \<lparr>hour = (if c = 2 then 12 else 22 + c), minute = 10 * a + b, second = 0, microsecond = 0\<rparr>"
  using assms by (simp add: char_evals parse_unfold)



lemma hmm_plain:
  assumes "3 \<le> h" "h \<le> 9" "a < 6" "b < 10"
  shows "parse_target_time [digit_char h, digit_char a, digit_char b]
     = Inr \<lparr>hour = h, minute = 10 * a + b, second = 0, microsecond = 0\<rparr>"
  using assms by (simp add: char_evals parse_unfold)

lemma hmm_plain_formats:
  assumes "3 \<le> h" "h \<le> 9" "a < 6" "b < 10"
  shows "strptime [digit_char h, digit_char a, digit_char b] ''%I:%M %p'' = Inl Does_not_match"
    and "strptime [digit_char h, digit_char a, digit_char b] ''%I:%M%p'' = Inl Does_not_match"
    and "strptime [digit_char h, digit_char a, digit_char b] ''%H:%M'' = Inl Does_not_match"
    and "strptime [digit_char h, digit_char a, digit_char b] ''%H%M''
      = Inr (combine \<lparr>year = 1900, month = 1, day = 1\<rparr>
               \<lparr>hour = h, minute = 10 * a + b, second = 0, microsecond = 0\<rparr>)"
  using assms by (simp_all add: char_evals parse_unfold)


section \<open>The loop over the formats\<close>

lemma try_formats_Inr:
  "try_formats s fmts last_exc = Inr t \<longleftrightarrow>
     (\<exists>pre fmt post dt. fmts = pre @ fmt # post \<and> (\<forall>f\<in>set pre. isl (strptime s f))
        \<and> strptime s fmt = Inr dt \<and> dt_time dt = t)"
proof (induction fmts arbitrary: last_exc)
  case Nil
  then show ?case by simp
next
  case (Cons f fs)
  show ?case
  proof (cases "strptime s f")
    case (Inl e)
    have "try_formats s (f # fs) last_exc = Inr t \<longleftrightarrow> try_formats s fs (Some e) = Inr t"
      using Inl by simp
    also have "\<dots> \<longleftrightarrow> (\<exists>pre fmt post dt. fs = pre @ fmt # post \<and> (\<forall>f\<in>set pre. isl (strptime s f))
        \<and> strptime s fmt = Inr dt \<and> dt_time dt = t)"
      by (rule Cons.IH)
    also have "\<dots> \<longleftrightarrow> (\<exists>pre fmt post dt. f # fs = pre @ fmt # post \<and> (\<forall>f\<in>set pre. isl (strptime s f))
        \<and> strptime s fmt = Inr dt \<and> dt_time dt = t)" (is "?L \<longleftrightarrow> ?R")
    proof
      assume ?L
      then obtain pre fmt post dt where h: "fs = pre @ fmt # post" "\<forall>f\<in>set pre. isl (strptime s f)"
        "strptime s fmt = Inr dt" "dt_time dt = t" by blast
      have "f # fs = (f # pre) @ fmt # post" using h(1) by simp
      moreover have "\<forall>g\<in>set (f # pre). isl (strptime s g)" using h(2) Inl by simp
      ultimately show ?R using h(3,4) by blast
    next
      assume ?R
      then obtain pre fmt post dt where h: "f # fs = pre @ fmt # post" "\<forall>f\<in>set pre. isl (strptime s f)"
        "strptime s fmt = Inr dt" "dt_time dt = t" by blast
      have "pre \<noteq> []"
      proof
        assume "pre = []"
        with h(1) have "fmt = f" by simp
        with h(3) Inl show False by simp
      qed
      then obtain pre' where p: "pre = f # pre'" using h(1) by (cases pre) auto
      then have "fs = pre' @ fmt # post" "\<forall>f\<in>set pre'. isl (strptime s f)" using h(1,2) by auto
      then show ?L using h(3,4) by blast
    qed
    finally show ?thesis .
  next
    case (Inr dt)
    have l: "try_formats s (f # fs) last_exc = Inr t \<longleftrightarrow> dt_time dt = t"
      using Inr by simp
    have "(\<exists>pre fmt post dt. f # fs = pre @ fmt # post \<and> (\<forall>f\<in>set pre. isl (strptime s f))
        \<and> strptime s fmt = Inr dt \<and> dt_time dt = t) \<longleftrightarrow> dt_time dt = t" (is "?R \<longleftrightarrow> _")
    proof
      assume ?R
      then obtain pre fmt post dt' where h: "f # fs = pre @ fmt # post" "\<forall>f\<in>set pre. isl (strptime s f)"
        "strptime s fmt = Inr dt'" "dt_time dt' = t" by blast
      have "pre = []"
      proof (cases pre)
        case Nil then show ?thesis .
      next
        case (Cons g gs)
        with h(1) have "g = f" by simp
        with h(2) Cons Inr show ?thesis by simp
      qed
      with h(1) have "fmt = f" by simp
      with h(3,4) Inr show "dt_time dt = t" by simp
    next
      assume "dt_time dt = t"
      then have "f # fs = [] @ f # fs \<and> (\<forall>f\<in>set []. isl (strptime s f))
        \<and> strptime s f = Inr dt \<and> dt_time dt = t" using Inr by simp
      then show ?R by blast
    qed
    with l show ?thesis by simp
  qed
qed


lemma try_formats_error:
  "try_formats s fmts last_exc = Inl e \<Longrightarrow>
     \<exists>cause. e = ValueError (''Unrecognized time format: '' @ [CHR 0x27] @ s @ [CHR 0x27]) cause"
  by (induction fmts arbitrary: last_exc) (auto split: sum.splits)


section \<open>The formats against the patterns of the specification\<close>






























lemma parse_target_time_error:
  assumes "parse_target_time s = Inl e"
  shows "\<exists>cause. e = ValueError (''Unrecognized time format: '' @ [CHR 0x27] @ strip s @ [CHR 0x27]) cause"
  using assms unfolding parse_target_time_def by (rule try_formats_error)



section \<open>Properties of the parser\<close>

text \<open>
  C3 (as amended). \<open>parse_target_time\<close> tries the six formats in the order
  \<^verbatim>\<open>%I:%M %p\<close>, \<^verbatim>\<open>%I:%M%p\<close>, \<^verbatim>\<open>%H:%M\<close>, \<^verbatim>\<open>%H%M\<close>, \<^verbatim>\<open>%I %p\<close>, \<^verbatim>\<open>%I%M %p\<close> and returns
  the result of the first one that matches the whole stripped input: it returns a time
  exactly when some format of the list yields it and every format before it fails. "07:00"
  and "7:00" both yield 07:00, "22:00" and "10:00 PM" both yield 22:00; the results are equal
  within each pair.
\<close>

theorem parse_target_time_first_match:
  "parse_formats = [''%I:%M %p'', ''%I:%M%p'', ''%H:%M'', ''%H%M'', ''%I %p'', ''%I%M %p'']
   \<and> (parse_target_time s = Inr t \<longleftrightarrow>
        (\<exists>pre fmt post dt. parse_formats = pre @ fmt # post
           \<and> (\<forall>f\<in>set pre. isl (strptime (strip s) f))
           \<and> strptime (strip s) fmt = Inr dt \<and> dt_time dt = t))
   \<and> parse_target_time ''07:00'' = Inr \<lparr>hour = 7, minute = 0, second = 0, microsecond = 0\<rparr>
   \<and> parse_target_time ''7:00'' = Inr \<lparr>hour = 7, minute = 0, second = 0, microsecond = 0\<rparr>
   \<and> parse_target_time ''22:00'' = Inr \<lparr>hour = 22, minute = 0, second = 0, microsecond = 0\<rparr>
   \<and> parse_target_time ''10:00 PM'' = Inr \<lparr>hour = 22, minute = 0, second = 0, microsecond = 0\<rparr>
   \<and> parse_target_time ''07:00'' = parse_target_time ''7:00''
   \<and> parse_target_time ''22:00'' = parse_target_time ''10:00 PM''"
proof -
  have a: "parse_target_time ''07:00'' = Inr \<lparr>hour = 7, minute = 0, second = 0, microsecond = 0\<rparr>"
    by code_simp
  have b: "parse_target_time ''7:00'' = Inr \<lparr>hour = 7, minute = 0, second = 0, microsecond = 0\<rparr>"
    by code_simp
  have c: "parse_target_time ''22:00'' = Inr \<lparr>hour = 22, minute = 0, second = 0, microsecond = 0\<rparr>"
    by code_simp
  have d: "parse_target_time ''10:00 PM'' = Inr \<lparr>hour = 22, minute = 0, second = 0, microsecond = 0\<rparr>"
    by code_simp
  have e: "parse_target_time s = Inr t \<longleftrightarrow>
        (\<exists>pre fmt post dt. parse_formats = pre @ fmt # post
           \<and> (\<forall>f\<in>set pre. isl (strptime (strip s) f))
           \<and> strptime (strip s) fmt = Inr dt \<and> dt_time dt = t)"
    unfolding parse_target_time_def by (rule try_formats_Inr)
  show ?thesis
    using a b c d e by (simp add: parse_formats_def)
qed

text \<open>
  Witness: on "10:00 PM" the first format of the list matches; on "22:00" the third does,
  after the first two have failed.
\<close>

theorem parse_target_time_first_match_witness:
  "(\<exists>pre fmt post dt. parse_formats = pre @ fmt # post
       \<and> (\<forall>f\<in>set pre. isl (strptime (strip ''22:00'') f))
       \<and> strptime (strip ''22:00'') fmt = Inr dt
       \<and> dt_time dt = \<lparr>hour = 22, minute = 0, second = 0, microsecond = 0\<rparr>)
   \<and> isl (strptime (strip ''22:00'') ''%I:%M %p'') \<and> isl (strptime (strip ''22:00'') ''%I:%M%p'')
   \<and> \<not> isl (strptime (strip ''22:00'') ''%H:%M'')"
proof -
  have "isl (strptime (strip ''22:00'') ''%I:%M %p'')" "isl (strptime (strip ''22:00'') ''%I:%M%p'')"
    "\<not> isl (strptime (strip ''22:00'') ''%H:%M'')"
    by code_simp+
  moreover have "\<exists>pre fmt post dt. parse_formats = pre @ fmt # post
       \<and> (\<forall>f\<in>set pre. isl (strptime (strip ''22:00'') f))
       \<and> strptime (strip ''22:00'') fmt = Inr dt
       \<and> dt_time dt = \<lparr>hour = 22, minute = 0, second = 0, microsecond = 0\<rparr>"
    using parse_target_time_first_match
      [of "''22:00''" "\<lparr>hour = 22, minute = 0, second = 0, microsecond = 0\<rparr>"]
    by blast
  ultimately show ?thesis by blast
qed

text \<open>
  The four results are not all equal: "07:00" is seven in the morning and "22:00" is ten
  in the evening.
\<close>

theorem parse_four_results_counterexample:
  "parse_target_time ''07:00'' \<noteq> parse_target_time ''22:00''"
  by code_simp

text \<open>
  C4. For every hour \<open>h\<close> from 1 to 12, written with or without a leading zero, and every
  minute \<open>m\<close> from 00 to 59, "h:mm AM" parses to hour \<open>h\<close> (hour 0 for 12 AM) and
  "h:mm PM" to hour \<open>h + 12\<close> (hour 12 for 12 PM), with minute \<open>m\<close>.
\<close>

theorem parse_target_time_12_hour:
  assumes "1 \<le> h" "h \<le> 12" "m < 60" and "hs = decimal h \<or> hs = zero_padded 2 h"
  shows "parse_target_time (hs @ '':'' @ zero_padded 2 m @ '' AM'')
           = Inr \<lparr>hour = (if h = 12 then 0 else h), minute = m, second = 0, microsecond = 0\<rparr>
       \<and> parse_target_time (hs @ '':'' @ zero_padded 2 m @ '' PM'')
           = Inr \<lparr>hour = (if h = 12 then 12 else h + 12), minute = m, second = 0, microsecond = 0\<rparr>"
proof -
  define a b where "a = m div 10" and "b = m mod 10"
  have ab: "a < 6" "b < 10" "10 * a + b = m" using assms(3) by (auto simp add: a_def b_def)
  have mm: "zero_padded 2 m = [digit_char a, digit_char b]"
    using ab(1) by (simp add: zero_padded_2 a_def b_def)
  show ?thesis
  proof (cases "h \<le> 9")
    case True
    have d: "decimal h = [digit_char h]" using True by (simp add: decimal_1)
    have z: "zero_padded 2 h = [digit_char 0, digit_char h]" using True by (simp add: zero_padded_2)
    from assms(4) show ?thesis
    proof
      assume "hs = decimal h"
      then show ?thesis
        using hour_1digit_am[OF assms(1) True ab(1,2)] hour_1digit_pm[OF assms(1) True ab(1,2)] True
        by (simp add: d mm ab(3))
    next
      assume "hs = zero_padded 2 h"
      then show ?thesis
        using hour_0digit_am[OF assms(1) True ab(1,2)] hour_0digit_pm[OF assms(1) True ab(1,2)] True
        by (simp add: z mm ab(3))
    qed
  next
    case False
    define c where "c = h - 10"
    have c: "c \<le> 2" "h = 10 + c" using False assms(2) by (auto simp add: c_def)
    have dm: "h div 10 = 1" "h mod 10 = c" using c by auto
    have d: "decimal h = [digit_char 1, digit_char c]" using c dm by (simp add: decimal_2)
    have z: "zero_padded 2 h = [digit_char 1, digit_char c]" using dm by (simp add: zero_padded_2)
    have hs: "hs = [digit_char 1, digit_char c]" using assms(4) d z by auto
    show ?thesis
      using hour_2digit_am[OF c(1) ab(1,2)] hour_2digit_pm[OF c(1) ab(1,2)] c
      by (auto simp add: hs mm ab(3))
  qed
qed

text \<open>
  Witness: "12:00 AM" is 00:00, "12:00 PM" is 12:00 and "7:00 PM" is 19:00.
\<close>

theorem parse_target_time_12_hour_witness:
  "parse_target_time ''12:00 AM'' = Inr \<lparr>hour = 0, minute = 0, second = 0, microsecond = 0\<rparr>
   \<and> parse_target_time ''12:00 PM'' = Inr \<lparr>hour = 12, minute = 0, second = 0, microsecond = 0\<rparr>
   \<and> parse_target_time ''7:00 PM'' = Inr \<lparr>hour = 19, minute = 0, second = 0, microsecond = 0\<rparr>"
proof -
  have s12: "decimal 12 @ '':'' @ zero_padded 2 0 @ '' AM'' = ''12:00 AM''"
    "decimal 12 @ '':'' @ zero_padded 2 0 @ '' PM'' = ''12:00 PM''"
    "decimal 7 @ '':'' @ zero_padded 2 0 @ '' PM'' = ''7:00 PM''"
    by code_simp+
  have h12: "(1::nat) \<le> 12" "(12::nat) \<le> 12" "(0::nat) < 60"
    "decimal 12 = decimal 12 \<or> decimal 12 = zero_padded 2 12"
    by simp_all
  have h7: "(1::nat) \<le> 7" "(7::nat) \<le> 12" "(0::nat) < 60"
    "decimal 7 = decimal 7 \<or> decimal 7 = zero_padded 2 7"
    by simp_all
  show ?thesis
    using parse_target_time_12_hour[OF h12, unfolded s12] parse_target_time_12_hour[OF h7, unfolded s12]
    by simp
qed




text \<open>
  C10. For every digit \<open>h\<close> from 3 to 9 and every minute \<open>m\<close> from 00 to 59, the
  three-character input "hmm" is accepted: the three formats with a colon do not match,
  the format \<^verbatim>\<open>%H%M\<close> does, and the result is hour \<open>h\<close>, minute \<open>m\<close>.
\<close>

theorem parse_target_time_three_digits:
  assumes "3 \<le> h" "h \<le> 9" "m < 60"
  shows "parse_target_time (decimal h @ zero_padded 2 m)
           = Inr \<lparr>hour = h, minute = m, second = 0, microsecond = 0\<rparr>
       \<and> strptime (decimal h @ zero_padded 2 m) ''%H%M''
           = Inr (combine \<lparr>year = 1900, month = 1, day = 1\<rparr>
                    \<lparr>hour = h, minute = m, second = 0, microsecond = 0\<rparr>)
       \<and> (\<forall>fmt\<in>set (take 3 parse_formats).
             strptime (decimal h @ zero_padded 2 m) fmt = Inl Does_not_match)"
proof -
  define a b where "a = m div 10" and "b = m mod 10"
  have ab: "a < 6" "b < 10" "10 * a + b = m" using assms(3) by (auto simp add: a_def b_def)
  have s: "decimal h @ zero_padded 2 m = [digit_char h, digit_char a, digit_char b]"
    using ab(1) assms(2) by (simp add: zero_padded_2 a_def b_def decimal_1)
  have t3: "take 3 parse_formats = [''%I:%M %p'', ''%I:%M%p'', ''%H:%M'']"
    by (simp add: parse_formats_def)
  show ?thesis
    unfolding s t3
    using hmm_plain[OF assms(1,2) ab(1,2)] hmm_plain_formats[OF assms(1,2) ab(1,2)]
    by (simp add: ab(3))
qed

text \<open>Witness: "700" is 07:00.\<close>

theorem parse_target_time_three_digits_witness:
  "parse_target_time ''700'' = Inr \<lparr>hour = 7, minute = 0, second = 0, microsecond = 0\<rparr>"
proof -
  have s: "decimal 7 @ zero_padded 2 0 = ''700''" by code_simp
  have "(3::nat) \<le> 7" "(7::nat) \<le> 9" "(0::nat) < 60" by simp_all
  from parse_target_time_three_digits[OF this] show ?thesis by (simp add: s)
qed


section \<open>The fallback chain of the player\<close>

lemma run_each_spec:
  "run_each h cmds tried =
     (case find (succeeds h) (map Run cmds) of
        Some m \<Rightarrow> (tried @ takeWhile (\<lambda>m. \<not> succeeds h m) (map Run cmds) @ [m], True)
      | None \<Rightarrow> (tried @ map Run cmds, False))"
  by (induction cmds arbitrary: tried) (auto split: option.splits)

lemma play_sound_missing_file:
  "\<not> isfile h (expanduser h f) \<Longrightarrow>
     play_sound h f = ([], Inl (FileNotFoundError (''Sound file not found: '' @ expanduser h f)))"
  by (simp add: play_sound_def)

lemma play_sound_existing_file:
  assumes "isfile h (expanduser h f)"
  shows "play_sound h f =
     (case find (succeeds h) (mechanisms (platform h) (expanduser h f)) of
        Some m \<Rightarrow>
          (takeWhile (\<lambda>m. \<not> succeeds h m) (mechanisms (platform h) (expanduser h f)) @ [m], Inr ())
      | None \<Rightarrow>
          (mechanisms (platform h) (expanduser h f),
           Inl (RuntimeError
  ''No available method to play sound on this system. Install 'playsound' or ensure a command-line player is available.'')))"
  using assms
  by (simp add: play_sound_def mechanisms_def run_each_spec Let_def split: option.splits)


section \<open>The wait loop\<close>

text \<open>
  While the clock has not reached the alarm and no interrupt arrives, the loop goes on to the
  next iteration.
\<close>

lemma wait_loop_skip:
  assumes "\<forall>j<k. \<not> datetime_le alarm_dt (clock w (Suc (n + j)))"
    and "\<forall>j<k. interrupt w \<noteq> At_poll (n + j) \<and> interrupt w \<noteq> At_sleep (n + j)"
  shows "wait_loop w alarm_dt soundfile out n = wait_loop w alarm_dt soundfile out (n + k)"
  using assms
proof (induction k arbitrary: n)
  case 0
  then show ?case by simp
next
  case (Suc k)
  have first: "\<not> datetime_le alarm_dt (clock w (Suc n))" "interrupt w \<noteq> At_poll n"
    "interrupt w \<noteq> At_sleep n"
    using Suc.prems(1)[rule_format, of 0] Suc.prems(2)[rule_format, of 0] by simp_all
  have step: "wait_loop w alarm_dt soundfile out n = wait_loop w alarm_dt soundfile out (Suc n)"
    by (subst wait_loop.simps) (simp add: first)
  have "\<forall>j<k. \<not> datetime_le alarm_dt (clock w (Suc (Suc n + j)))"
    using Suc.prems(1) by (metis Suc_less_eq add_Suc_shift)
  moreover have "\<forall>j<k. interrupt w \<noteq> At_poll (Suc n + j) \<and> interrupt w \<noteq> At_sleep (Suc n + j)"
    using Suc.prems(2) by (metis Suc_less_eq add_Suc_shift)
  ultimately have "wait_loop w alarm_dt soundfile out (Suc n)
      = wait_loop w alarm_dt soundfile out (Suc n + k)"
    by (rule Suc.IH)
  with step show ?case by simp
qed

lemma wait_loop_alarm:
  assumes "\<forall>j<k. \<not> datetime_le alarm_dt (clock w (Suc j))"
    and "datetime_le alarm_dt (clock w (Suc k))"
    and "\<forall>j<k. interrupt w \<noteq> At_poll j \<and> interrupt w \<noteq> At_sleep j"
    and "interrupt w \<noteq> At_poll k"
  shows "wait_loop w alarm_dt soundfile out 0 = Some (sound_alarm w soundfile out (Suc k))"
proof -
  have "wait_loop w alarm_dt soundfile out 0 = wait_loop w alarm_dt soundfile out (0 + k)"
    by (rule wait_loop_skip) (simp_all add: assms)
  also have "\<dots> = Some (sound_alarm w soundfile out (Suc k))"
    by (subst wait_loop.simps) (simp add: assms)
  finally show ?thesis .
qed

lemma wait_loop_interrupt_at_sleep:
  assumes "interrupt w = At_sleep k"
    and "\<forall>j\<le>k. \<not> datetime_le alarm_dt (clock w (Suc j))"
  shows "wait_loop w alarm_dt soundfile out 0 = Some (cancelled out (Suc k) [])"
proof -
  have "wait_loop w alarm_dt soundfile out 0 = wait_loop w alarm_dt soundfile out (0 + k)"
    by (rule wait_loop_skip) (simp_all add: assms)
  also have "\<dots> = Some (cancelled out (Suc k) [])"
    by (subst wait_loop.simps) (simp add: assms)
  finally show ?thesis .
qed

lemma wait_loop_interrupt_at_poll:
  assumes "interrupt w = At_poll k"
    and "\<forall>j<k. \<not> datetime_le alarm_dt (clock w (Suc j))"
  shows "wait_loop w alarm_dt soundfile out 0 = Some (cancelled out k [])"
proof -
  have "wait_loop w alarm_dt soundfile out 0 = wait_loop w alarm_dt soundfile out (0 + k)"
    by (rule wait_loop_skip) (simp_all add: assms)
  also have "\<dots> = Some (cancelled out k [])"
    by (subst wait_loop.simps) (simp add: assms)
  finally show ?thesis .
qed

lemma main_unfold:
  assumes "read_args (argv w) = (target_str, soundfile)"
    and "parse_target_time target_str = Inr target_time"
    and "confirm_target_today target_time (clock w 0) = Inr alarm_dt"
  shows "main w = wait_loop w alarm_dt soundfile
                 [''Alarm set for: '' @ strftime alarm_dt, ''Sound file: '' @ soundfile] 0"
  using assms by (simp add: main_def)


section \<open>Properties of the program\<close>

text \<open>
  C6 (as amended). When the target time string fails to parse, the \<^verbatim>\<open>ValueError\<close>
  carries the input string with its leading and trailing whitespace stripped; \<open>main\<close>
  prints the error and the line of accepted formats and exits with code 2, without reading
  the clock in the wait loop and without calling \<open>play_sound\<close>.
\<close>

theorem main_invalid_format:
  assumes "parse_target_time (fst (read_args (argv w))) = Inl e"
  shows "(\<exists>cause. e = ValueError (''Unrecognized time format: '' @ [CHR 0x27]
                          @ strip (fst (read_args (argv w))) @ [CHR 0x27]) cause)
       \<and> main w = Some \<lparr>stdout = [''Error: '' @ ''Unrecognized time format: '' @ [CHR 0x27]
                                       @ strip (fst (read_args (argv w))) @ [CHR 0x27],
                                    ''Accepted formats: 7:00 AM, 07:00, 10:00 PM, 22:00, etc.''],
                          status = Exit 2, polls = 0, calls = []\<rparr>"
proof -
  from parse_target_time_error[OF assms] obtain cause where
    e: "e = ValueError (''Unrecognized time format: '' @ [CHR 0x27]
                          @ strip (fst (read_args (argv w))) @ [CHR 0x27]) cause"
    by blast
  obtain target_str soundfile where r: "read_args (argv w) = (target_str, soundfile)"
    by (cases "read_args (argv w)")
  have "main w = Some \<lparr>stdout = [''Error: '' @ ''Unrecognized time format: '' @ [CHR 0x27]
                                       @ strip target_str @ [CHR 0x27],
                                    ''Accepted formats: 7:00 AM, 07:00, 10:00 PM, 22:00, etc.''],
                          status = Exit 2, polls = 0, calls = []\<rparr>"
    using assms e r by (simp add: main_def)
  with e r show ?thesis by auto
qed

text \<open>
  Witness: the argument "noon" with surrounding blanks; the error shows the stripped text.
\<close>

theorem main_invalid_format_witness:
  "main \<lparr>argv = ['' noon  ''],
         clock = (\<lambda>n. \<lparr>dt_date = \<lparr>year = 2024, month = 1, day = 1\<rparr>,
                         dt_time = \<lparr>hour = 8, minute = 0, second = 0, microsecond = 0\<rparr>\<rparr>),
         interrupt = Never,
         machine = \<lparr>expanduser = (\<lambda>p. p), isfile = (\<lambda>p. True), platform = ''linux'',
                    playsound_works = (\<lambda>p. False), run_works = (\<lambda>c. True)\<rparr>\<rparr>
     = Some \<lparr>stdout = [''Error: Unrecognized time format: '' @ [CHR 0x27] @ ''noon'' @ [CHR 0x27],
                        ''Accepted formats: 7:00 AM, 07:00, 10:00 PM, 22:00, etc.''],
              status = Exit 2, polls = 0, calls = []\<rparr>"
proof -
  let ?w = "\<lparr>argv = ['' noon  ''],
         clock = (\<lambda>n. \<lparr>dt_date = \<lparr>year = 2024, month = 1, day = 1\<rparr>,
                         dt_time = \<lparr>hour = 8, minute = 0, second = 0, microsecond = 0\<rparr>\<rparr>),
         interrupt = Never,
         machine = \<lparr>expanduser = (\<lambda>p. p), isfile = (\<lambda>p. True), platform = ''linux'',
                    playsound_works = (\<lambda>p. False), run_works = (\<lambda>c. True)\<rparr>\<rparr>"
  have a: "fst (read_args (argv ?w)) = '' noon  ''" by (simp add: read_args_def)
  have s: "strip '' noon  '' = ''noon''" by code_simp
  have h: "parse_target_time (fst (read_args (argv ?w)))
      = Inl (ValueError (''Unrecognized time format: '' @ [CHR 0x27] @ ''noon'' @ [CHR 0x27])
               (Some Does_not_match))"
    unfolding a by code_simp
  from main_invalid_format[OF h] show ?thesis unfolding a s by simp
qed

text \<open>
  The input " noon" (with a leading blank) is reported as "noon": the error does not carry
  the original string.
\<close>

theorem parse_error_text_counterexample:
  "parse_target_time '' noon''
     = Inl (ValueError (''Unrecognized time format: '' @ [CHR 0x27] @ ''noon'' @ [CHR 0x27])
              (Some Does_not_match))"
  by code_simp

text \<open>
  C7. When the interrupt arrives in the wait loop (while the clock is read in iteration
  \<open>k\<close>, or during the sleep of iteration \<open>k\<close>) and none of the polls before it has
  reached the alarm, \<open>main\<close> ends: \<open>play_sound\<close> is never called, the message
  "Alarm cancelled by user." is printed after the two opening lines, and the exit code is 0.
\<close>

theorem main_cancelled:
  assumes "read_args (argv w) = (target_str, soundfile)"
    and "parse_target_time target_str = Inr target_time"
    and "confirm_target_today target_time (clock w 0) = Inr alarm_dt"
    and "interrupt w = At_poll k \<or> interrupt w = At_sleep k"
    and "\<forall>j<k. \<not> datetime_le alarm_dt (clock w (Suc j))"
    and "interrupt w = At_sleep k \<longrightarrow> \<not> datetime_le alarm_dt (clock w (Suc k))"
  shows "main w = Some \<lparr>stdout = [''Alarm set for: '' @ strftime alarm_dt,
                                  ''Sound file: '' @ soundfile,
                                  CHR 0x0A # ''Alarm cancelled by user.''],
                        status = Exit 0,
                        polls = (if interrupt w = At_poll k then k else Suc k),
                        calls = []\<rparr>"
proof -
  note m = main_unfold[OF assms(1-3)]
  from assms(4) show ?thesis
  proof
    assume i: "interrupt w = At_poll k"
    show ?thesis
      unfolding m using wait_loop_interrupt_at_poll[OF i assms(5)] i
      by (simp add: cancelled_def)
  next
    assume i: "interrupt w = At_sleep k"
    have "\<forall>j\<le>k. \<not> datetime_le alarm_dt (clock w (Suc j))"
      using assms(5,6) i by (auto simp add: le_less)
    from wait_loop_interrupt_at_sleep[OF i this] i show ?thesis
      unfolding m by (simp add: cancelled_def)
  qed
qed

text \<open>
  Witness: no arguments, the clock stands at 2024-01-01 08:00:00, the alarm is set for
  07:00 of the next day, and the interrupt arrives during the third sleep.
\<close>

theorem main_cancelled_witness:
  "main \<lparr>argv = [],
         clock = (\<lambda>n. \<lparr>dt_date = \<lparr>year = 2024, month = 1, day = 1\<rparr>,
                         dt_time = \<lparr>hour = 8, minute = 0, second = 0, microsecond = 0\<rparr>\<rparr>),
         interrupt = At_sleep 2,
         machine = \<lparr>expanduser = (\<lambda>p. p), isfile = (\<lambda>p. True), platform = ''linux'',
                    playsound_works = (\<lambda>p. False), run_works = (\<lambda>c. True)\<rparr>\<rparr>
     = Some \<lparr>stdout = [''Alarm set for: 2024-01-02 07:00:00'', ''Sound file: alarm.aif'',
                        CHR 0x0A # ''Alarm cancelled by user.''],
              status = Exit 0, polls = 3, calls = []\<rparr>"
proof -
  let ?now = "\<lparr>dt_date = \<lparr>year = 2024, month = 1, day = 1\<rparr>,
                dt_time = \<lparr>hour = 8, minute = 0, second = 0, microsecond = 0\<rparr>\<rparr>"
  let ?w = "\<lparr>argv = [], clock = (\<lambda>n. ?now), interrupt = At_sleep 2,
         machine = \<lparr>expanduser = (\<lambda>p. p), isfile = (\<lambda>p. True), platform = ''linux'',
                    playsound_works = (\<lambda>p. False), run_works = (\<lambda>c. True)\<rparr>\<rparr>"
  let ?alarm = "\<lparr>dt_date = \<lparr>year = 2024, month = 1, day = 2\<rparr>,
                dt_time = \<lparr>hour = 7, minute = 0, second = 0, microsecond = 0\<rparr>\<rparr>"
  have h1: "read_args (argv ?w) = (''7:00 AM'', ''alarm.aif'')"
    by (simp add: read_args_def DEFAULT_TIME_def DEFAULT_SOUND_def)
  have h2: "parse_target_time ''7:00 AM''
      = Inr \<lparr>hour = 7, minute = 0, second = 0, microsecond = 0\<rparr>"
    by code_simp
  have h3: "confirm_target_today \<lparr>hour = 7, minute = 0, second = 0, microsecond = 0\<rparr> (clock ?w 0)
      = Inr ?alarm"
    by (simp add: confirm_target_today_def combine_def datetime_le_def dt_tuple_def
        add_one_day_def next_day_def days_in_month_def MAXYEAR_def)
  have h4: "interrupt ?w = At_poll 2 \<or> interrupt ?w = At_sleep 2" by simp
  have h5: "\<forall>j<2. \<not> datetime_le ?alarm (clock ?w (Suc j))"
    by (simp add: datetime_le_def dt_tuple_def)
  have h6: "interrupt ?w = At_sleep 2 \<longrightarrow> \<not> datetime_le ?alarm (clock ?w (Suc 2))"
    by (simp add: datetime_le_def dt_tuple_def)
  have f: "strftime ?alarm = ''2024-01-02 07:00:00''" by code_simp
  from main_cancelled[OF h1 h2 h3 h4 h5 h6, unfolded f] show ?thesis
    by simp
qed


text \<open>
  C8. \<open>play_sound\<close> raises \<^verbatim>\<open>FileNotFoundError\<close> exactly when the expanded path is not an
  existing file, and then no playback mechanism has been tried. Otherwise it tries the
  mechanisms of the platform in their fixed order, stops at the first that succeeds, and
  raises \<^verbatim>\<open>RuntimeError\<close> when all have failed. When \<open>play_sound\<close> fails at the alarm
  time, \<open>main\<close> prints "Failed to play sound:" with the reason and exits with code 3.
\<close>

theorem play_sound_failures:
  "((\<exists>tried m. play_sound h f = (tried, Inl (FileNotFoundError m)))
      \<longleftrightarrow> \<not> isfile h (expanduser h f))
   \<and> (\<not> isfile h (expanduser h f) \<longrightarrow>
        play_sound h f = ([], Inl (FileNotFoundError (''Sound file not found: '' @ expanduser h f))))
   \<and> (isfile h (expanduser h f) \<longrightarrow>
        play_sound h f =
          (case find (succeeds h) (mechanisms (platform h) (expanduser h f)) of
             Some m \<Rightarrow>
               (takeWhile (\<lambda>m. \<not> succeeds h m) (mechanisms (platform h) (expanduser h f)) @ [m],
                Inr ())
           | None \<Rightarrow>
               (mechanisms (platform h) (expanduser h f),
                Inl (RuntimeError
  ''No available method to play sound on this system. Install 'playsound' or ensure a command-line player is available.''))))
   \<and> (\<forall>(w::world) target_str soundfile target_time alarm_dt k e.
        read_args (argv w) = (target_str, soundfile)
        \<and> parse_target_time target_str = Inr target_time
        \<and> confirm_target_today target_time (clock w 0) = Inr alarm_dt
        \<and> interrupt w = Never
        \<and> (\<forall>j<k. \<not> datetime_le alarm_dt (clock w (Suc j)))
        \<and> datetime_le alarm_dt (clock w (Suc k))
        \<and> snd (play_sound (machine w) soundfile) = Inl e
        \<longrightarrow> main w = Some \<lparr>stdout = [''Alarm set for: '' @ strftime alarm_dt,
                                       ''Sound file: '' @ soundfile,
                                       ''Alarm time reached. Playing sound...'',
                                       ''Failed to play sound: '' @ str e],
                             status = Exit 3, polls = Suc k, calls = [soundfile]\<rparr>)"
proof (intro conjI allI impI)
  show "(\<exists>tried m. play_sound h f = (tried, Inl (FileNotFoundError m)))
      \<longleftrightarrow> \<not> isfile h (expanduser h f)"
  proof (cases "isfile h (expanduser h f)")
    case True
    then show ?thesis
      by (auto simp add: play_sound_existing_file split: option.splits)
  next
    case False
    then show ?thesis by (simp add: play_sound_missing_file)
  qed
next
  assume "\<not> isfile h (expanduser h f)"
  then show "play_sound h f
      = ([], Inl (FileNotFoundError (''Sound file not found: '' @ expanduser h f)))"
    by (rule play_sound_missing_file)
next
  assume "isfile h (expanduser h f)"
  then show "play_sound h f =
          (case find (succeeds h) (mechanisms (platform h) (expanduser h f)) of
             Some m \<Rightarrow>
               (takeWhile (\<lambda>m. \<not> succeeds h m) (mechanisms (platform h) (expanduser h f)) @ [m],
                Inr ())
           | None \<Rightarrow>
               (mechanisms (platform h) (expanduser h f),
                Inl (RuntimeError
  ''No available method to play sound on this system. Install 'playsound' or ensure a command-line player is available.'')))"
    by (rule play_sound_existing_file)
next
  fix w :: world and target_str soundfile target_time alarm_dt k e
  assume a: "read_args (argv w) = (target_str, soundfile)
        \<and> parse_target_time target_str = Inr target_time
        \<and> confirm_target_today target_time (clock w 0) = Inr alarm_dt
        \<and> interrupt w = Never
        \<and> (\<forall>j<k. \<not> datetime_le alarm_dt (clock w (Suc j)))
        \<and> datetime_le alarm_dt (clock w (Suc k))
        \<and> snd (play_sound (machine w) soundfile) = Inl e"
  then have m: "main w = wait_loop w alarm_dt soundfile
                 [''Alarm set for: '' @ strftime alarm_dt, ''Sound file: '' @ soundfile] 0"
    by (simp add: main_unfold)
  have "wait_loop w alarm_dt soundfile
                 [''Alarm set for: '' @ strftime alarm_dt, ''Sound file: '' @ soundfile] 0
    = Some (sound_alarm w soundfile
                 [''Alarm set for: '' @ strftime alarm_dt, ''Sound file: '' @ soundfile] (Suc k))"
    by (rule wait_loop_alarm) (simp_all add: a)
  with m a show "main w = Some \<lparr>stdout = [''Alarm set for: '' @ strftime alarm_dt,
                                       ''Sound file: '' @ soundfile,
                                       ''Alarm time reached. Playing sound...'',
                                       ''Failed to play sound: '' @ str e],
                             status = Exit 3, polls = Suc k, calls = [soundfile]\<rparr>"
    by (simp add: sound_alarm_def)
qed

text \<open>
  Witness: on Linux with no working player, the alarm set at 06:00 for 07:00 is reached at
  the second poll, every mechanism fails in order, and the run exits with code 3.
\<close>

theorem play_sound_failures_witness:
  "main \<lparr>argv = [''7:00''],
         clock = (\<lambda>n. \<lparr>dt_date = \<lparr>year = 2024, month = 1, day = 1\<rparr>,
                         dt_time = \<lparr>hour = (if n < 2 then 6 else 7), minute = 0, second = 0,
                                    microsecond = 0\<rparr>\<rparr>),
         interrupt = Never,
         machine = \<lparr>expanduser = (\<lambda>p. p), isfile = (\<lambda>p. True), platform = ''linux'',
                    playsound_works = (\<lambda>p. False), run_works = (\<lambda>c. False)\<rparr>\<rparr>
     = Some \<lparr>stdout = [''Alarm set for: 2024-01-01 07:00:00'', ''Sound file: alarm.aif'',
                        ''Alarm time reached. Playing sound...'',
  ''Failed to play sound: No available method to play sound on this system. Install 'playsound' or ensure a command-line player is available.''],
              status = Exit 3, polls = 2, calls = [''alarm.aif'']\<rparr>
   \<and> play_sound \<lparr>expanduser = (\<lambda>p. p), isfile = (\<lambda>p. True), platform = ''linux'',
                    playsound_works = (\<lambda>p. False), run_works = (\<lambda>c. False)\<rparr> ''alarm.aif''
     = ([Playsound ''alarm.aif'', Run [''paplay'', ''alarm.aif''], Run [''aplay'', ''alarm.aif''],
         Run [''ffplay'', ''-nodisp'', ''-autoexit'', ''alarm.aif'']],
        Inl (RuntimeError
  ''No available method to play sound on this system. Install 'playsound' or ensure a command-line player is available.''))"
proof -
  let ?h = "\<lparr>expanduser = (\<lambda>p. p), isfile = (\<lambda>p. True), platform = ''linux'',
                    playsound_works = (\<lambda>p. False), run_works = (\<lambda>c. False)\<rparr>"
  let ?w = "\<lparr>argv = [''7:00''],
         clock = (\<lambda>n. \<lparr>dt_date = \<lparr>year = 2024, month = 1, day = 1\<rparr>,
                         dt_time = \<lparr>hour = (if n < 2 then 6 else 7), minute = 0, second = 0,
                                    microsecond = 0\<rparr>\<rparr>),
         interrupt = Never, machine = ?h\<rparr>"
  let ?alarm = "\<lparr>dt_date = \<lparr>year = 2024, month = 1, day = 1\<rparr>,
                dt_time = \<lparr>hour = 7, minute = 0, second = 0, microsecond = 0\<rparr>\<rparr>"
  let ?e = "RuntimeError
  ''No available method to play sound on this system. Install 'playsound' or ensure a command-line player is available.''"
  have p: "play_sound ?h ''alarm.aif''
     = ([Playsound ''alarm.aif'', Run [''paplay'', ''alarm.aif''], Run [''aplay'', ''alarm.aif''],
         Run [''ffplay'', ''-nodisp'', ''-autoexit'', ''alarm.aif'']], Inl ?e)"
    by (simp add: play_sound_def startswith_def Let_def)
  have h1: "read_args (argv ?w) = (''7:00'', ''alarm.aif'')"
    by (simp add: read_args_def DEFAULT_SOUND_def)
  have h2: "parse_target_time ''7:00''
      = Inr \<lparr>hour = 7, minute = 0, second = 0, microsecond = 0\<rparr>"
    by code_simp
  have h3: "confirm_target_today \<lparr>hour = 7, minute = 0, second = 0, microsecond = 0\<rparr> (clock ?w 0)
      = Inr ?alarm"
    by (simp add: confirm_target_today_def combine_def datetime_le_def dt_tuple_def)
  have h4: "interrupt ?w = Never" by simp
  have h5: "\<forall>j<1. \<not> datetime_le ?alarm (clock ?w (Suc j))"
    by (simp add: datetime_le_def dt_tuple_def)
  have h6: "datetime_le ?alarm (clock ?w (Suc 1))"
    by (simp add: datetime_le_def dt_tuple_def)
  have h7: "snd (play_sound (machine ?w) ''alarm.aif'') = Inl ?e"
    using p by simp
  have f: "strftime ?alarm = ''2024-01-01 07:00:00''" by code_simp
  have "main ?w = Some \<lparr>stdout = [''Alarm set for: '' @ strftime ?alarm,
                                       ''Sound file: '' @ ''alarm.aif'',
                                       ''Alarm time reached. Playing sound...'',
                                       ''Failed to play sound: '' @ str ?e],
                             status = Exit 3, polls = Suc 1, calls = [''alarm.aif'']\<rparr>"
    using play_sound_failures[of ?h "''alarm.aif''"] h1 h2 h3 h4 h5 h6 h7 by blast
  then show ?thesis unfolding f using p by simp
qed

section \<open>The printed alarm time\<close>











end
